theory Spec2Isabelle
  imports Complex_Main "HOL-Library.Log_Nat"
begin

section \<open>Data model (recipes/models.py)\<close>

text \<open>
  Every Django model is a record of its columns and every table a list of rows, in the
  order a query set iterates it. Primary keys and foreign keys are integers. The
  surrogate \<open>id\<close> of the join models (RecipeIngredient, Favorite, Rating) is read by
  none of the operations below and is left out; so are the time stamps.

  A \<open>DecimalField(max_digits=5, decimal_places=2)\<close> holds a decimal number with two
  places. It is represented exactly by its number of hundredths: \<open>20000\<close> is
  \<open>Decimal('200.00')\<close>, \<open>10\<close> is \<open>Decimal('0.10')\<close>. Addition of such decimals is
  addition of the hundredths.
\<close>

type_synonym decimal = int

record ingredient =
  ing_id :: int
  ing_name :: string
  ing_unit :: string

record recipe =
  rec_id :: int
  rec_author :: int
  rec_title :: string
  rec_description :: string
  rec_steps :: "string list"
  rec_time_minutes :: int

record recipe_ingredient =
  ri_recipe :: int
  ri_ingredient :: int
  ri_amount :: decimal

record favorite =
  fav_user :: int
  fav_recipe :: int

record rating =
  rating_user :: int
  rating_recipe :: int
  rating_value :: int

text \<open>
  The many-to-many field \<open>Recipe.tags\<close> is its through table of (recipe, tag) pairs.
\<close>

record store =
  Ingredient_objects :: "ingredient list"
  Recipe_objects :: "recipe list"
  Recipe_tags :: "(int \<times> int) list"
  RecipeIngredient_objects :: "recipe_ingredient list"
  Favorite_objects :: "favorite list"
  Rating_objects :: "rating list"

text \<open>
  The exceptions the modelled code raises. The text of a \<open>ValidationError\<close> is one of
  the literals of serializers.py:
  \<^item> \<open>AtLeastOneTag\<close>: "At least one tag is required"
  \<^item> \<open>AtLeastOneIngredient\<close>: "At least one ingredient is required"
  \<^item> \<open>DuplicateIngredients\<close>: "Duplicate ingredients are not allowed"
  \<^item> \<open>AmountAtLeast\<close>: "Amount must be at least 0.1"
  \<^item> \<open>IngredientDoesNotExist n\<close>: f"Ingredient with id {n} does not exist"
  \<^item> \<open>UserMustBeAuthenticated\<close>: "User must be authenticated"
\<close>

datatype detail =
    AtLeastOneTag
  | AtLeastOneIngredient
  | DuplicateIngredients
  | AmountAtLeast
  | IngredientDoesNotExist int
  | UserMustBeAuthenticated

datatype error =
    ValidationError detail
  | NotAuthenticated
  | PermissionDenied
  | Http404
  | DoesNotExist
  | MultipleObjectsReturned
  | IntegrityError
  | KeyError
  | ValueError
  | TypeError
  | ZeroDivisionError
  | OverflowError

text \<open>
  A request: \<open>user = None\<close> is the anonymous user (\<open>is_authenticated\<close> is false),
  \<open>http_method\<close> is the HTTP method, \<open>query_params\<close> is the query string.
\<close>

record request =
  user :: "int option"
  http_method :: string
  query_params :: "string \<rightharpoonup> string"

definition is_authenticated :: "request \<Rightarrow> bool" where
  "is_authenticated req = (user req \<noteq> None)"

section \<open>Related managers\<close>


definition recipe_ingredients_all :: "store \<Rightarrow> int \<Rightarrow> recipe_ingredient list" where
  "recipe_ingredients_all st rid = filter (\<lambda>ri. ri_recipe ri = rid) (RecipeIngredient_objects st)"

text \<open>\<open>recipe_ing.ingredient\<close>: the foreign key is followed by a lookup of the primary
  key; a dangling key raises \<open>DoesNotExist\<close>.\<close>

definition ingredient_get :: "store \<Rightarrow> int \<Rightarrow> ingredient option" where
  "ingredient_get st iid = find (\<lambda>i. ing_id i = iid) (Ingredient_objects st)"

text \<open>\<open>Ingredient.objects.filter(id=ingredient_id).exists()\<close>\<close>

definition ingredient_exists :: "store \<Rightarrow> int \<Rightarrow> bool" where
  "ingredient_exists st iid = (filter (\<lambda>i. ing_id i = iid) (Ingredient_objects st) \<noteq> [])"

section \<open>Derived fields (recipes/serializers.py)\<close>






section \<open>Shopping list (ShoppingListSerializer.create)\<close>

type_synonym shopping_key = "string \<times> string"

text \<open>
  The body of the inner loop: the key is (ingredient name, ingredient unit); an amount is
  added to the entry of a key already in the dictionary and stored otherwise.
\<close>

definition add_amount ::
  "(shopping_key \<rightharpoonup> decimal) \<Rightarrow> shopping_key \<Rightarrow> decimal \<Rightarrow> (shopping_key \<rightharpoonup> decimal)" where
  "add_amount ingredients key amount =
     (case ingredients key of
        Some subtotal \<Rightarrow> ingredients(key \<mapsto> subtotal + amount)
      | None \<Rightarrow> ingredients(key \<mapsto> amount))"

fun for_recipe_ing ::
  "store \<Rightarrow> (shopping_key \<rightharpoonup> decimal) \<Rightarrow> recipe_ingredient list
     \<Rightarrow> error + (shopping_key \<rightharpoonup> decimal)" where
  "for_recipe_ing st ingredients [] = Inr ingredients"
| "for_recipe_ing st ingredients (recipe_ing # rest) =
     (case ingredient_get st (ri_ingredient recipe_ing) of
        None \<Rightarrow> Inl DoesNotExist
      | Some ing \<Rightarrow>
          for_recipe_ing st
            (add_amount ingredients (ing_name ing, ing_unit ing) (ri_amount recipe_ing)) rest)"

fun for_recipe ::
  "store \<Rightarrow> (shopping_key \<rightharpoonup> decimal) \<Rightarrow> recipe list
     \<Rightarrow> error + (shopping_key \<rightharpoonup> decimal)" where
  "for_recipe st ingredients [] = Inr ingredients"
| "for_recipe st ingredients (recipe # rest) =
     (case for_recipe_ing st ingredients (recipe_ingredients_all st (rec_id recipe)) of
        Inl e \<Rightarrow> Inl e
      | Inr ingredients' \<Rightarrow> for_recipe st ingredients' rest)"

text \<open>\<open>Recipe.objects.filter(id__in=recipe_ids)\<close>: the rows whose key is in the list,
  each row once.\<close>

definition filter_id_in :: "store \<Rightarrow> int list \<Rightarrow> recipe list" where
  "filter_id_in st recipe_ids = filter (\<lambda>r. rec_id r \<in> set recipe_ids) (Recipe_objects st)"

text \<open>
  \<open>queryset.filter(favorites__user=user)\<close>: the inner join of the query set with the
  Favorite table, one result row per matching Favorite row.
\<close>

definition filter_favorites_user :: "store \<Rightarrow> int \<Rightarrow> recipe list \<Rightarrow> recipe list" where
  "filter_favorites_user st u queryset =
     concat (map (\<lambda>r. map (\<lambda>f. r)
        (filter (\<lambda>f. fav_recipe f = rec_id r \<and> fav_user f = u) (Favorite_objects st))) queryset)"

text \<open>
  \<open>ShoppingListSerializer.create\<close>. \<open>recipe_ids\<close> is \<open>validated_data.get('recipe_ids')\<close>:
  \<open>None\<close> when the field is absent. An empty list is falsy, as \<open>None\<close> is.
\<close>

definition ShoppingListSerializer_create ::
  "store \<Rightarrow> request option \<Rightarrow> int list option \<Rightarrow> error + (shopping_key \<rightharpoonup> decimal)" where
  "ShoppingListSerializer_create st request recipe_ids =
     (case request of
        None \<Rightarrow> Inl (ValidationError UserMustBeAuthenticated)
      | Some req \<Rightarrow>
          (case user req of
             None \<Rightarrow> Inl (ValidationError UserMustBeAuthenticated)
           | Some u \<Rightarrow>
               (let recipes =
                  (if recipe_ids \<noteq> None \<and> recipe_ids \<noteq> Some []
                   then filter_id_in st (the recipe_ids)
                   else filter_favorites_user st u (Recipe_objects st))
                in for_recipe st Map.empty recipes)))"

section \<open>Recipe validation (RecipeDetailSerializer.validate)\<close>

text \<open>
  The dictionaries the serializer works on, after the fields have been parsed: a key that
  is absent is \<open>None\<close>. \<open>data_tags\<close> is the list of the primary keys of the Tag objects
  (\<open>tag_ids\<close>, \<open>source='tags'\<close>).
\<close>

record ingredient_input =
  inp_ingredient :: int
  inp_amount :: "decimal option"

record recipe_data =
  data_title :: "string option"
  data_description :: "string option"
  data_steps :: "string list option"
  data_time_minutes :: "int option"
  data_tags :: "int list option"
  data_ingredients_data :: "ingredient_input list option"

text \<open>
  The loop over \<open>ingredients_data\<close>. \<open>not amount\<close> holds of \<open>None\<close> and of a zero
  decimal. \<open>float(amount) < 0.1\<close> on a decimal with two places holds exactly when it has
  fewer than ten hundredths: the double of \<open>Decimal('0.10')\<close> is the double \<open>0.1\<close>.
\<close>

definition invalid_amount :: "decimal option \<Rightarrow> bool" where
  "invalid_amount amount = (case amount of None \<Rightarrow> True | Some a \<Rightarrow> a = 0 \<or> a < 10)"

fun for_ing_data :: "store \<Rightarrow> ingredient_input list \<Rightarrow> error + unit" where
  "for_ing_data st [] = Inr ()"
| "for_ing_data st (ing_data # rest) =
     (let amount = inp_amount ing_data in
      if invalid_amount amount
      then Inl (ValidationError AmountAtLeast)
      else
        (let ingredient_id = inp_ingredient ing_data in
         if \<not> ingredient_exists st ingredient_id
         then Inl (ValidationError (IngredientDoesNotExist ingredient_id))
         else for_ing_data st rest))"

text \<open>\<open>len(set(ingredient_ids))\<close> is the length of the list without its repetitions.\<close>

definition validate :: "store \<Rightarrow> recipe_data \<Rightarrow> error + recipe_data" where
  "validate st data =
     (let tags = (case data_tags data of None \<Rightarrow> [] | Some ts \<Rightarrow> ts) in
      if tags = [] then Inl (ValidationError AtLeastOneTag)
      else
        (case data_ingredients_data data of
           None \<Rightarrow> Inl (ValidationError AtLeastOneIngredient)
         | Some ingredients_data \<Rightarrow>
             if ingredients_data = [] then Inl (ValidationError AtLeastOneIngredient)
             else
               (let ingredient_ids = map inp_ingredient ingredients_data in
                if length ingredient_ids \<noteq> length (remdups ingredient_ids)
                then Inl (ValidationError DuplicateIngredients)
                else
                  (case for_ing_data st ingredients_data of
                     Inl e \<Rightarrow> Inl e
                   | Inr u \<Rightarrow> Inr data))))"

section \<open>Recipe update (RecipeDetailSerializer.update)\<close>

text \<open>\<open>instance.save()\<close>: the row with the instance's primary key is overwritten, and
  inserted when there is none.\<close>

definition recipe_save :: "store \<Rightarrow> recipe \<Rightarrow> store" where
  "recipe_save st instance =
     (if filter (\<lambda>r. rec_id r = rec_id instance) (Recipe_objects st) \<noteq> []
      then st\<lparr>Recipe_objects :=
        map (\<lambda>r. if rec_id r = rec_id instance then instance else r) (Recipe_objects st)\<rparr>
      else st\<lparr>Recipe_objects := Recipe_objects st @ [instance]\<rparr>)"

text \<open>\<open>instance.tags.set(tags)\<close>: the associations with tags outside the list are
  removed, those missing are added.\<close>

definition tags_all :: "store \<Rightarrow> int \<Rightarrow> int list" where
  "tags_all st rid = map snd (filter (\<lambda>p. fst p = rid) (Recipe_tags st))"

definition tags_set :: "store \<Rightarrow> int \<Rightarrow> int list \<Rightarrow> store" where
  "tags_set st rid tags =
     st\<lparr>Recipe_tags :=
        filter (\<lambda>p. fst p \<noteq> rid \<or> snd p \<in> set tags) (Recipe_tags st) @
        map (Pair rid) (filter (\<lambda>t. (rid, t) \<notin> set (Recipe_tags st)) (remdups tags))\<rparr>"

text \<open>\<open>instance.recipe_ingredients.all().delete()\<close>\<close>

definition recipe_ingredients_delete :: "store \<Rightarrow> int \<Rightarrow> store" where
  "recipe_ingredients_delete st rid =
     st\<lparr>RecipeIngredient_objects :=
        filter (\<lambda>ri. ri_recipe ri \<noteq> rid) (RecipeIngredient_objects st)\<rparr>"

text \<open>
  \<open>RecipeIngredient.objects.create\<close>: the insert is refused with \<open>IntegrityError\<close> when a
  foreign key of the row dangles or when \<open>unique_together = ('recipe', 'ingredient')\<close>
  would be broken.
\<close>

definition RecipeIngredient_create :: "store \<Rightarrow> recipe_ingredient \<Rightarrow> error + store" where
  "RecipeIngredient_create st row =
     (if filter (\<lambda>r. rec_id r = ri_recipe row) (Recipe_objects st) = []
         \<or> \<not> ingredient_exists st (ri_ingredient row)
      then Inl IntegrityError
      else if filter (\<lambda>x. ri_recipe x = ri_recipe row \<and> ri_ingredient x = ri_ingredient row)
                (RecipeIngredient_objects st) \<noteq> []
      then Inl IntegrityError
      else Inr (st\<lparr>RecipeIngredient_objects := RecipeIngredient_objects st @ [row]\<rparr>))"

text \<open>The loop that creates the rows; \<open>ing_data['amount']\<close> raises \<open>KeyError\<close> on a
  dictionary without the key.\<close>

fun for_create :: "store \<Rightarrow> int \<Rightarrow> ingredient_input list \<Rightarrow> error + store" where
  "for_create st rid [] = Inr st"
| "for_create st rid (ing_data # rest) =
     (case inp_amount ing_data of
        None \<Rightarrow> Inl KeyError
      | Some amount \<Rightarrow>
          (case RecipeIngredient_create st
                  \<lparr>ri_recipe = rid, ri_ingredient = inp_ingredient ing_data, ri_amount = amount\<rparr> of
             Inl e \<Rightarrow> Inl e
           | Inr st' \<Rightarrow> for_create st' rid rest))"

text \<open>
  \<open>update(instance, validated_data)\<close> returns the instance and the store it leaves. An
  exception leaves what the surrounding transaction keeps, which is not modelled.
\<close>

definition update :: "store \<Rightarrow> recipe \<Rightarrow> recipe_data \<Rightarrow> error + (recipe \<times> store)" where
  "update st instance validated_data =
     (let tags = data_tags validated_data;
          ingredients_data = data_ingredients_data validated_data;
          instance = instance\<lparr>
            rec_title := (case data_title validated_data of
                            None \<Rightarrow> rec_title instance | Some v \<Rightarrow> v),
            rec_description := (case data_description validated_data of
                            None \<Rightarrow> rec_description instance | Some v \<Rightarrow> v),
            rec_steps := (case data_steps validated_data of
                            None \<Rightarrow> rec_steps instance | Some v \<Rightarrow> v),
            rec_time_minutes := (case data_time_minutes validated_data of
                            None \<Rightarrow> rec_time_minutes instance | Some v \<Rightarrow> v)\<rparr>;
          st1 = recipe_save st instance;
          st2 = (case tags of None \<Rightarrow> st1 | Some ts \<Rightarrow> tags_set st1 (rec_id instance) ts)
      in case ingredients_data of
           None \<Rightarrow> Inr (instance, st2)
         | Some ings \<Rightarrow>
             (case for_create (recipe_ingredients_delete st2 (rec_id instance))
                     (rec_id instance) ings of
                Inl e \<Rightarrow> Inl e
              | Inr st3 \<Rightarrow> Inr (instance, st3)))"

section \<open>Views (recipes/views.py, recipes/permissions.py)\<close>

text \<open>
  What the views call in Django and the REST framework and the repository does not hold
  is a parameter: \<open>py_int\<close> is the conversion of a query string value to an integer key
  (\<open>None\<close> when the conversion raises), \<open>filter_queryset\<close> applies the filter backends
  (\<open>SearchFilter\<close>, \<open>OrderingFilter\<close>) to a query set.
\<close>

record framework =
  py_int :: "string \<Rightarrow> int option"
  filter_queryset :: "request \<Rightarrow> recipe list \<Rightarrow> recipe list"

datatype permission = IsAuthenticated | IsAuthorOrReadOnly | AllowAny

text \<open>\<open>RecipeViewSet.get_permissions\<close>, by the name of the action.\<close>

definition get_permissions :: "string \<Rightarrow> permission list" where
  "get_permissions action =
     (if action \<in> set [''create''] then [IsAuthenticated]
      else if action \<in> set [''update'', ''partial_update'', ''destroy'']
      then [IsAuthorOrReadOnly]
      else [AllowAny])"

fun has_permission :: "permission \<Rightarrow> request \<Rightarrow> bool" where
  "has_permission IsAuthenticated req = is_authenticated req"
| "has_permission IsAuthorOrReadOnly req = True"
| "has_permission AllowAny req = True"

text \<open>\<open>IsAuthorOrReadOnly.has_object_permission\<close>; the other two accept every
  object.\<close>

fun has_object_permission :: "permission \<Rightarrow> request \<Rightarrow> recipe \<Rightarrow> bool" where
  "has_object_permission IsAuthorOrReadOnly req obj =
     (if http_method req \<in> set [''GET'', ''HEAD'', ''OPTIONS''] then True
      else Some (rec_author obj) = user req)"
| "has_object_permission IsAuthenticated req obj = True"
| "has_object_permission AllowAny req obj = True"

text \<open>\<open>check_permissions\<close>: the first permission that refuses raises
  \<open>NotAuthenticated\<close> for the anonymous user and \<open>PermissionDenied\<close> otherwise.\<close>

definition check_permissions :: "string \<Rightarrow> request \<Rightarrow> error + unit" where
  "check_permissions action req =
     (if list_all (\<lambda>p. has_permission p req) (get_permissions action) then Inr ()
      else if is_authenticated req then Inl PermissionDenied else Inl NotAuthenticated)"

definition check_object_permissions :: "string \<Rightarrow> request \<Rightarrow> recipe \<Rightarrow> error + unit" where
  "check_object_permissions action req obj =
     (if list_all (\<lambda>p. has_object_permission p req obj) (get_permissions action) then Inr ()
      else if is_authenticated req then Inl PermissionDenied else Inl NotAuthenticated)"

text \<open>\<open>RecipeViewSet.get_queryset\<close>. A string of the query is truthy when it is there
  and not empty.\<close>

definition get_queryset :: "framework \<Rightarrow> store \<Rightarrow> request \<Rightarrow> error + recipe list" where
  "get_queryset fw st req =
     (let queryset = Recipe_objects st;
          author_id = query_params req ''author''
      in case (if author_id \<noteq> None \<and> author_id \<noteq> Some []
               then (case py_int fw (the author_id) of
                       None \<Rightarrow> Inl ValueError
                     | Some a \<Rightarrow> Inr (filter (\<lambda>r. rec_author r = a) queryset))
               else Inr queryset) of
           Inl e \<Rightarrow> Inl e
         | Inr queryset \<Rightarrow>
             (let favorited = query_params req ''favorited'' in
              if favorited \<noteq> None \<and> favorited \<noteq> Some [] \<and> is_authenticated req
              then Inr (filter_favorites_user st (the (user req)) queryset)
              else Inr queryset))"

text \<open>\<open>self.get_object()\<close>: the row of the filtered query set with the primary key
  \<open>pk\<close>, when the permissions of the action accept it.\<close>

definition get_object ::
  "framework \<Rightarrow> store \<Rightarrow> request \<Rightarrow> string \<Rightarrow> int \<Rightarrow> error + recipe" where
  "get_object fw st req action pk =
     (case get_queryset fw st req of
        Inl e \<Rightarrow> Inl e
      | Inr queryset \<Rightarrow>
          (case filter (\<lambda>r. rec_id r = pk) (filter_queryset fw req queryset) of
             [] \<Rightarrow> Inl Http404
           | [obj] \<Rightarrow>
               (case check_object_permissions action req obj of
                  Inl e \<Rightarrow> Inl e
                | Inr u0 \<Rightarrow> Inr obj)
           | _ \<Rightarrow> Inl MultipleObjectsReturned))"

datatype body =
    NoBody
  | Detail string
  | Ingredients "shopping_key \<rightharpoonup> decimal"
  | Instance recipe

datatype response = Response body nat

text \<open>\<open>Favorite.objects.filter(user=user, recipe=recipe)\<close>\<close>

definition favorite_filter :: "store \<Rightarrow> int \<Rightarrow> int \<Rightarrow> favorite list" where
  "favorite_filter st u rid =
     filter (\<lambda>f. fav_user f = u \<and> fav_recipe f = rid) (Favorite_objects st)"

text \<open>\<open>Favorite.objects.create\<close>, under \<open>unique_together = ('user', 'recipe')\<close>.\<close>

definition Favorite_create :: "store \<Rightarrow> favorite \<Rightarrow> error + store" where
  "Favorite_create st row =
     (if favorite_filter st (fav_user row) (fav_recipe row) \<noteq> [] then Inl IntegrityError
      else Inr (st\<lparr>Favorite_objects := Favorite_objects st @ [row]\<rparr>))"

definition favorite_delete :: "store \<Rightarrow> favorite \<Rightarrow> store" where
  "favorite_delete st row =
     st\<lparr>Favorite_objects := filter (\<lambda>f. f \<noteq> row) (Favorite_objects st)\<rparr>"

text \<open>
  \<open>RecipeViewSet.favorite\<close> (POST). A query on the anonymous user raises \<open>TypeError\<close>.
\<close>

definition favorite ::
  "framework \<Rightarrow> store \<Rightarrow> request \<Rightarrow> int \<Rightarrow> error + (response \<times> store)" where
  "favorite fw st req pk =
     (case check_permissions ''favorite'' req of
        Inl e \<Rightarrow> Inl e
      | Inr u0 \<Rightarrow>
          (case get_object fw st req ''favorite'' pk of
             Inl e \<Rightarrow> Inl e
           | Inr recipe \<Rightarrow>
               (case user req of
                  None \<Rightarrow> Inl TypeError
                | Some u \<Rightarrow>
                    if favorite_filter st u (rec_id recipe) \<noteq> []
                    then Inr (Response (Detail ''Already in favorites'') 400, st)
                    else
                      (case Favorite_create st \<lparr>fav_user = u, fav_recipe = rec_id recipe\<rparr> of
                         Inl e \<Rightarrow> Inl e
                       | Inr st' \<Rightarrow> Inr (Response NoBody 201, st')))))"

text \<open>\<open>RecipeViewSet.unfavorite\<close> (DELETE), with \<open>get_object_or_404\<close>.\<close>

definition unfavorite ::
  "framework \<Rightarrow> store \<Rightarrow> request \<Rightarrow> int \<Rightarrow> error + (response \<times> store)" where
  "unfavorite fw st req pk =
     (case check_permissions ''unfavorite'' req of
        Inl e \<Rightarrow> Inl e
      | Inr u0 \<Rightarrow>
          (case get_object fw st req ''unfavorite'' pk of
             Inl e \<Rightarrow> Inl e
           | Inr recipe \<Rightarrow>
               (case user req of
                  None \<Rightarrow> Inl TypeError
                | Some u \<Rightarrow>
                    (case favorite_filter st u (rec_id recipe) of
                       [] \<Rightarrow> Inl Http404
                     | [fav] \<Rightarrow> Inr (Response NoBody 204, favorite_delete st fav)
                     | _ \<Rightarrow> Inl MultipleObjectsReturned))))"

text \<open>
  \<open>RecipeViewSet.shopping_list\<close>. The body is the parsed \<open>recipe_ids\<close> field, so
  \<open>is_valid()\<close> holds; \<open>serializer.save()\<close> is \<open>create\<close>. The value is the response that the
  view returns; the framework renders it afterwards, see \<open>render\<close>.
\<close>

definition shopping_list :: "store \<Rightarrow> request \<Rightarrow> int list option \<Rightarrow> error + response" where
  "shopping_list st req recipe_ids =
     (case check_permissions ''shopping_list'' req of
        Inl e \<Rightarrow> Inl e
      | Inr u0 \<Rightarrow>
          (case ShoppingListSerializer_create st (Some req) recipe_ids of
             Inl e \<Rightarrow> Inl e
           | Inr ingredients \<Rightarrow> Inr (Response (Ingredients ingredients) 200)))"

text \<open>
  The framework renders the response of a view with \<open>json.dumps\<close>, which raises
  \<open>TypeError\<close> on a dictionary that has a key other than a string, a number, a boolean or
  \<open>None\<close>. The keys of the shopping list are tuples, so that of the dictionaries that
  \<open>shopping_list\<close> answers with only the empty one is rendered.
\<close>

definition render :: "response \<Rightarrow> error + response" where
  "render resp =
     (case resp of
        Response (Ingredients ingredients) status \<Rightarrow>
          if ingredients = Map.empty then Inr resp else Inl TypeError
      | _ \<Rightarrow> Inr resp)"

text \<open>\<open>POST /recipes/shopping_list/\<close>: the view, and the rendering of its response.\<close>

definition post_shopping_list ::
  "store \<Rightarrow> request \<Rightarrow> int list option \<Rightarrow> error + response" where
  "post_shopping_list st req recipe_ids =
     (case shopping_list st req recipe_ids of
        Inl e \<Rightarrow> Inl e
      | Inr resp \<Rightarrow> render resp)"

text \<open>
  \<open>PATCH /recipes/{pk}/\<close>, the mixin's \<open>partial_update\<close>: the permissions, the object,
  \<open>serializer.is_valid(raise_exception=True)\<close>, which runs \<open>validate\<close>, and
  \<open>serializer.save()\<close>, which runs \<open>update\<close>.
\<close>

definition partial_update ::
  "framework \<Rightarrow> store \<Rightarrow> request \<Rightarrow> int \<Rightarrow> recipe_data \<Rightarrow> error + (response \<times> store)" where
  "partial_update fw st req pk data =
     (case check_permissions ''partial_update'' req of
        Inl e \<Rightarrow> Inl e
      | Inr u0 \<Rightarrow>
          (case get_object fw st req ''partial_update'' pk of
             Inl e \<Rightarrow> Inl e
           | Inr instance \<Rightarrow>
               (case validate st data of
                  Inl e \<Rightarrow> Inl e
                | Inr validated_data \<Rightarrow>
                    (case update st instance validated_data of
                       Inl e \<Rightarrow> Inl e
                     | Inr (instance', st') \<Rightarrow> Inr (Response (Instance instance') 200, st')))))"

section \<open>What the properties are stated with\<close>

text \<open>The key of a RecipeIngredient row in the shopping list: the name and the unit of
  its ingredient.\<close>

definition row_key :: "store \<Rightarrow> recipe_ingredient \<Rightarrow> shopping_key option" where
  "row_key st ri =
     map_option (\<lambda>i. (ing_name i, ing_unit i)) (ingredient_get st (ri_ingredient ri))"

text \<open>The RecipeIngredient rows of a list of recipes.\<close>

definition selected_rows :: "store \<Rightarrow> recipe list \<Rightarrow> recipe_ingredient list" where
  "selected_rows st rs = concat (map (\<lambda>r. recipe_ingredients_all st (rec_id r)) rs)"

text \<open>The amounts of the rows with a given key, and the mapping that has, for every key
  of a row, the sum of these amounts.\<close>

definition amounts_of :: "store \<Rightarrow> recipe_ingredient list \<Rightarrow> shopping_key \<Rightarrow> decimal list" where
  "amounts_of st rows k = map ri_amount (filter (\<lambda>ri. row_key st ri = Some k) rows)"

definition totals_of :: "store \<Rightarrow> recipe_ingredient list \<Rightarrow> (shopping_key \<rightharpoonup> decimal)" where
  "totals_of st rows k =
     (if amounts_of st rows k = [] then None else Some (sum_list (amounts_of st rows k)))"

definition merge_total :: "decimal option \<Rightarrow> decimal list \<Rightarrow> decimal option" where
  "merge_total prior xs =
     (case prior of
        None \<Rightarrow> (if xs = [] then None else Some (sum_list xs))
      | Some t \<Rightarrow> Some (t + sum_list xs))"

text \<open>The foreign key \<open>RecipeIngredient.ingredient\<close> holds of a list of rows.\<close>

definition fk_ingredient :: "store \<Rightarrow> recipe_ingredient list \<Rightarrow> bool" where
  "fk_ingredient st rows = list_all (\<lambda>ri. ingredient_exists st (ri_ingredient ri)) rows"

text \<open>\<open>Recipe.objects.filter(id=i).exists()\<close>\<close>

definition recipe_exists :: "store \<Rightarrow> int \<Rightarrow> bool" where
  "recipe_exists st i = (filter (\<lambda>r. rec_id r = i) (Recipe_objects st) \<noteq> [])"

text \<open>The row that \<open>update\<close> creates from an entry of the payload.\<close>

definition row_of :: "int \<Rightarrow> ingredient_input \<Rightarrow> recipe_ingredient" where
  "row_of rid ing_data =
     \<lparr>ri_recipe = rid, ri_ingredient = inp_ingredient ing_data,
      ri_amount = the (inp_amount ing_data)\<rparr>"

text \<open>The first entry of an ingredient list that breaks the amount rule or the existence
  rule.\<close>

definition first_offender :: "store \<Rightarrow> ingredient_input list \<Rightarrow> ingredient_input option" where
  "first_offender st ings =
     find (\<lambda>x. invalid_amount (inp_amount x) \<or> \<not> ingredient_exists st (inp_ingredient x)) ings"

text \<open>A request with its \<open>favorited\<close> parameter set to a value, or removed.\<close>

definition with_favorited :: "request \<Rightarrow> string option \<Rightarrow> request" where
  "with_favorited req v = req\<lparr>query_params := (query_params req)(''favorited'' := v)\<rparr>"

section \<open>An example database\<close>

text \<open>
  Recipe 1 has 200 g of flour and 50 g of sugar, recipe 2 has 300 g of flour and 2 eggs.
  User 7 wrote recipe 1 and has recipe 2 among the favorites; recipe 1 is rated 3 and 5.
\<close>

definition flour :: ingredient where
  "flour = \<lparr>ing_id = 1, ing_name = ''flour'', ing_unit = ''g''\<rparr>"

definition sugar :: ingredient where
  "sugar = \<lparr>ing_id = 2, ing_name = ''sugar'', ing_unit = ''g''\<rparr>"

definition egg :: ingredient where
  "egg = \<lparr>ing_id = 3, ing_name = ''egg'', ing_unit = ''pcs''\<rparr>"

definition R1 :: recipe where
  "R1 = \<lparr>rec_id = 1, rec_author = 7, rec_title = ''Cake'', rec_description = ''A cake'',
         rec_steps = [''Mix'', ''Bake''], rec_time_minutes = 60\<rparr>"

definition R2 :: recipe where
  "R2 = \<lparr>rec_id = 2, rec_author = 8, rec_title = ''Pancakes'', rec_description = ''Thin'',
         rec_steps = [''Mix'', ''Fry''], rec_time_minutes = 20\<rparr>"

definition db :: store where
  "db = \<lparr>Ingredient_objects = [flour, sugar, egg],
         Recipe_objects = [R1, R2],
         Recipe_tags = [(1, 1), (2, 1)],
         RecipeIngredient_objects =
           [\<lparr>ri_recipe = 1, ri_ingredient = 1, ri_amount = 20000\<rparr>,
            \<lparr>ri_recipe = 1, ri_ingredient = 2, ri_amount = 5000\<rparr>,
            \<lparr>ri_recipe = 2, ri_ingredient = 1, ri_amount = 30000\<rparr>,
            \<lparr>ri_recipe = 2, ri_ingredient = 3, ri_amount = 200\<rparr>],
         Favorite_objects = [\<lparr>fav_user = 7, fav_recipe = 2\<rparr>],
         Rating_objects =
           [\<lparr>rating_user = 7, rating_recipe = 1, rating_value = 3\<rparr>,
            \<lparr>rating_user = 8, rating_recipe = 1, rating_value = 5\<rparr>]\<rparr>"

definition drf :: framework where
  "drf = \<lparr>py_int = (\<lambda>s. if s = ''7'' then Some 7 else if s = ''8'' then Some 8 else None),
          filter_queryset = (\<lambda>req queryset. queryset)\<rparr>"

definition user7 :: "string \<Rightarrow> request" where
  "user7 m = \<lparr>user = Some 7, http_method = m, query_params = Map.empty\<rparr>"

definition anonymous :: "string \<Rightarrow> request" where
  "anonymous m = \<lparr>user = None, http_method = m, query_params = Map.empty\<rparr>"


text \<open>
  Three payloads: one whose first ingredient is unknown and whose second has the amount
  0.05; one that replaces the ingredients of a recipe by three eggs; one that carries a
  title and nothing else.
\<close>

definition both_rules_payload :: recipe_data where
  "both_rules_payload =
     \<lparr>data_title = None, data_description = None, data_steps = None,
      data_time_minutes = None, data_tags = Some [1],
      data_ingredients_data =
        Some [\<lparr>inp_ingredient = 999, inp_amount = Some 100\<rparr>,
              \<lparr>inp_ingredient = 1, inp_amount = Some 5\<rparr>]\<rparr>"

definition egg_payload :: recipe_data where
  "egg_payload =
     \<lparr>data_title = None, data_description = None, data_steps = None,
      data_time_minutes = None, data_tags = Some [1],
      data_ingredients_data = Some [\<lparr>inp_ingredient = 3, inp_amount = Some 300\<rparr>]\<rparr>"

definition title_only :: recipe_data where
  "title_only =
     \<lparr>data_title = Some ''Tart'', data_description = None, data_steps = None,
      data_time_minutes = None, data_tags = None, data_ingredients_data = None\<rparr>"

section \<open>The shopping list: lemmas\<close>

lemma ingredient_exists_get: "ingredient_exists st iid \<longleftrightarrow> ingredient_get st iid \<noteq> None"
  by (auto simp: ingredient_exists_def ingredient_get_def find_None_iff filter_empty_conv)

lemma add_amount_apply:
  "add_amount d k a k' =
     (if k' = k then Some (case d k of None \<Rightarrow> a | Some t \<Rightarrow> t + a) else d k')"
  by (simp add: add_amount_def split: option.splits)

lemma for_recipe_ing_totals:
  "fk_ingredient st rows \<Longrightarrow>
   \<exists>m. for_recipe_ing st d rows = Inr m \<and> (\<forall>k. m k = merge_total (d k) (amounts_of st rows k))"
proof (induction rows arbitrary: d)
  case Nil
  then show ?case by (simp add: merge_total_def amounts_of_def split: option.splits)
next
  case (Cons ri rows)
  from Cons.prems obtain ing where ing: "ingredient_get st (ri_ingredient ri) = Some ing"
    and rest: "fk_ingredient st rows"
    by (auto simp: fk_ingredient_def ingredient_exists_get)
  let ?d = "add_amount d (ing_name ing, ing_unit ing) (ri_amount ri)"
  from Cons.IH[OF rest, of ?d] obtain m where
    m: "for_recipe_ing st ?d rows = Inr m"
    "\<And>k. m k = merge_total (?d k) (amounts_of st rows k)" by blast
  have "m k = merge_total (d k) (amounts_of st (ri # rows) k)" for k
    using ing by (simp add: m(2) add_amount_apply merge_total_def amounts_of_def row_key_def
        split: option.splits)
  with m(1) ing show ?case by simp
qed

lemma amounts_of_append:
  "amounts_of st (xs @ ys) k = amounts_of st xs k @ amounts_of st ys k"
  by (simp add: amounts_of_def)

lemma merge_total_append:
  "merge_total (merge_total p xs) ys = merge_total p (xs @ ys)"
  by (simp add: merge_total_def split: option.splits)

lemma for_recipe_totals:
  "fk_ingredient st (selected_rows st rs) \<Longrightarrow>
   \<exists>m. for_recipe st d rs = Inr m \<and>
       (\<forall>k. m k = merge_total (d k) (amounts_of st (selected_rows st rs) k))"
proof (induction rs arbitrary: d)
  case Nil
  then show ?case by (simp add: selected_rows_def merge_total_def amounts_of_def split: option.splits)
next
  case (Cons r rs)
  have sel: "selected_rows st (r # rs) = recipe_ingredients_all st (rec_id r) @ selected_rows st rs"
    by (simp add: selected_rows_def)
  from Cons.prems have a: "fk_ingredient st (recipe_ingredients_all st (rec_id r))"
    and b: "fk_ingredient st (selected_rows st rs)"
    by (simp_all add: sel fk_ingredient_def)
  from for_recipe_ing_totals[OF a, of d] obtain m1 where
    m1: "for_recipe_ing st d (recipe_ingredients_all st (rec_id r)) = Inr m1"
    "\<And>k. m1 k = merge_total (d k) (amounts_of st (recipe_ingredients_all st (rec_id r)) k)"
    by blast
  from Cons.IH[OF b, of m1] obtain m where
    m: "for_recipe st m1 rs = Inr m"
    "\<And>k. m k = merge_total (m1 k) (amounts_of st (selected_rows st rs) k)" by blast
  have "m k = merge_total (d k) (amounts_of st (selected_rows st (r # rs)) k)" for k
    by (simp add: m(2) m1(2) sel amounts_of_append merge_total_append)
  with m(1) m1(1) show ?case by simp
qed

lemma for_recipe_empty:
  assumes "fk_ingredient st (selected_rows st rs)"
  shows "for_recipe st Map.empty rs = Inr (totals_of st (selected_rows st rs))"
proof -
  from for_recipe_totals[OF assms, of Map.empty] obtain m where
    m: "for_recipe st Map.empty rs = Inr m"
    "\<And>k. m k = merge_total None (amounts_of st (selected_rows st rs) k)" by auto
  have "m = totals_of st (selected_rows st rs)"
    by (rule ext) (simp add: m(2) totals_of_def merge_total_def)
  with m(1) show ?thesis by simp
qed

lemma selected_rows_subset: "set (selected_rows st rs) \<subseteq> set (RecipeIngredient_objects st)"
  by (auto simp: selected_rows_def recipe_ingredients_all_def)

lemma fk_ingredient_selected:
  "fk_ingredient st (RecipeIngredient_objects st) \<Longrightarrow> fk_ingredient st (selected_rows st rs)"
  using selected_rows_subset[of st rs] by (auto simp: fk_ingredient_def list_all_iff)

lemma dom_totals_of:
  "dom (totals_of st rows) = {k. \<exists>ri \<in> set rows. row_key st ri = Some k}"
  by (auto simp: totals_of_def amounts_of_def filter_empty_conv dom_def)

lemma shopping_example:
  "ShoppingListSerializer_create db (Some (user7 ''POST'')) (Some [1, 2]) =
     Inr [(''flour'', ''g'') \<mapsto> 50000, (''sugar'', ''g'') \<mapsto> 5000, (''egg'', ''pcs'') \<mapsto> 200]"
proof -
  have "ShoppingListSerializer_create db (Some (user7 ''POST'')) (Some [1, 2]) =
    Inr (Map.empty((''flour'', ''g'') \<mapsto> 20000, (''sugar'', ''g'') \<mapsto> 5000,
          (''flour'', ''g'') \<mapsto> 50000, (''egg'', ''pcs'') \<mapsto> 200))"
    by (simp add: ShoppingListSerializer_create_def user7_def filter_id_in_def
      recipe_ingredients_all_def ingredient_get_def add_amount_def db_def R1_def R2_def
      flour_def sugar_def egg_def)
  also have "\<dots> =
      Inr [(''flour'', ''g'') \<mapsto> 50000, (''sugar'', ''g'') \<mapsto> 5000, (''egg'', ''pcs'') \<mapsto> 200]"
    by (auto simp: fun_eq_iff)
  finally show ?thesis .
qed

section \<open>The shopping list sums the amounts by name and unit\<close>

text \<open>
  C1. \<open>ShoppingListSerializer.create\<close> runs its loops, started on the empty
  dictionary, over the recipes it has selected (those of \<open>recipe_ids\<close> when the list
  is not empty). The loops over a list of recipes return the mapping \<open>totals_of\<close> of
  the recipes' RecipeIngredient rows: its keys are exactly the (name, unit) pairs of the ingredients
  of these rows, and the value at a key is the sum of the amounts of all the rows whose
  ingredient has this name and this unit, whatever the identifiers of the ingredients.
  The foreign key of the rows is assumed to hold; the sum is the exact sum of the
  decimals. For the example database and the recipes 1 and 2 the result is flour 500 g,
  sugar 50 g and egg 2 pcs.
\<close>

theorem shopping_list_totals:
  "(fk_ingredient st (selected_rows st rs) \<longrightarrow>
      for_recipe st Map.empty rs = Inr (totals_of st (selected_rows st rs)))
   \<and> (user req = Some u \<longrightarrow> recipe_ids \<noteq> [] \<longrightarrow>
        ShoppingListSerializer_create st (Some req) (Some recipe_ids) =
          for_recipe st Map.empty (filter_id_in st recipe_ids))
   \<and> dom (totals_of st (selected_rows st rs)) =
       {k. \<exists>ri \<in> set (selected_rows st rs). row_key st ri = Some k}
   \<and> (\<forall>k. totals_of st (selected_rows st rs) k =
         (if amounts_of st (selected_rows st rs) k = [] then None
          else Some (sum_list (amounts_of st (selected_rows st rs) k))))
   \<and> ShoppingListSerializer_create db (Some (user7 ''POST'')) (Some [1, 2]) =
       Inr [(''flour'', ''g'') \<mapsto> 50000, (''sugar'', ''g'') \<mapsto> 5000,
            (''egg'', ''pcs'') \<mapsto> 200]"
proof (intro conjI impI allI)
  assume "fk_ingredient st (selected_rows st rs)"
  then show "for_recipe st Map.empty rs = Inr (totals_of st (selected_rows st rs))"
    by (rule for_recipe_empty)
next
  assume "user req = Some u" "recipe_ids \<noteq> []"
  then show "ShoppingListSerializer_create st (Some req) (Some recipe_ids) =
          for_recipe st Map.empty (filter_id_in st recipe_ids)"
    by (simp add: ShoppingListSerializer_create_def)
next
  show "dom (totals_of st (selected_rows st rs)) =
       {k. \<exists>ri \<in> set (selected_rows st rs). row_key st ri = Some k}"
    by (rule dom_totals_of)
next
  fix k
  show "totals_of st (selected_rows st rs) k =
         (if amounts_of st (selected_rows st rs) k = [] then None
          else Some (sum_list (amounts_of st (selected_rows st rs) k)))"
    by (simp add: totals_of_def)
next
  show "ShoppingListSerializer_create db (Some (user7 ''POST'')) (Some [1, 2]) =
       Inr [(''flour'', ''g'') \<mapsto> 50000, (''sugar'', ''g'') \<mapsto> 5000,
            (''egg'', ''pcs'') \<mapsto> 200]"
    by (rule shopping_example)
qed

theorem shopping_list_totals_witness:
  "fk_ingredient db (selected_rows db [R1, R2])
   \<and> for_recipe db Map.empty [R1, R2] = Inr (totals_of db (selected_rows db [R1, R2]))
   \<and> user (user7 ''POST'') = Some 7
   \<and> [1, 2] \<noteq> ([]::int list)
   \<and> ShoppingListSerializer_create db (Some (user7 ''POST'')) (Some [1, 2]) =
       for_recipe db Map.empty (filter_id_in db [1, 2])
   \<and> filter_id_in db [1, 2] = [R1, R2]
   \<and> totals_of db (selected_rows db [R1, R2]) (''flour'', ''g'') = Some 50000
   \<and> totals_of db (selected_rows db [R1, R2]) (''egg'', ''pcs'') = Some 200
   \<and> totals_of db (selected_rows db [R1, R2]) (''egg'', ''g'') = None"
proof -
  have fk: "fk_ingredient db (selected_rows db [R1, R2])"
    by (simp add: fk_ingredient_def selected_rows_def recipe_ingredients_all_def
        ingredient_exists_def db_def R1_def R2_def flour_def sugar_def egg_def)
  have vals: "totals_of db (selected_rows db [R1, R2]) (''flour'', ''g'') = Some 50000"
    "totals_of db (selected_rows db [R1, R2]) (''egg'', ''pcs'') = Some 200"
    "totals_of db (selected_rows db [R1, R2]) (''egg'', ''g'') = None"
    by (simp_all add: totals_of_def amounts_of_def row_key_def selected_rows_def
        recipe_ingredients_all_def ingredient_get_def db_def R1_def R2_def flour_def
        sugar_def egg_def)
  have u: "user (user7 ''POST'') = Some 7" by (simp add: user7_def)
  have n: "[1, 2] \<noteq> ([]::int list)" by simp
  have sel: "filter_id_in db [1, 2] = [R1, R2]"
    by (simp add: filter_id_in_def db_def R1_def R2_def)
  from shopping_list_totals [of db "[R1, R2]" "user7 ''POST''" 7 "[1, 2]"] fk vals u n sel
  show ?thesis by blast
qed

section \<open>The average rating\<close>

subsection \<open>Division of integers into a float\<close>













subsection \<open>The average of the ratings\<close>









section \<open>Validation of a recipe payload\<close>

lemma for_ing_data_first_offender:
  "for_ing_data st ings =
     (case first_offender st ings of
        None \<Rightarrow> Inr ()
      | Some x \<Rightarrow>
          if invalid_amount (inp_amount x) then Inl (ValidationError AmountAtLeast)
          else Inl (ValidationError (IngredientDoesNotExist (inp_ingredient x))))"
  by (induction ings) (auto simp: first_offender_def Let_def)

lemma length_remdups_distinct: "(length xs \<noteq> length (remdups xs)) = (\<not> distinct xs)"
  by (metis distinct_remdups length_remdups_eq remdups_id_iff_distinct)

text \<open>
  C4, as amended. \<open>validate\<close> fails with the reason of the first rule that is broken,
  in this order: no tag; no ingredient; an ingredient identifier that occurs twice.
  After that the ingredients are examined one by one, in the order of the list, and the
  first ingredient whose amount is absent or below 0.1, or whose identifier is not in
  storage, decides: the failure is the invalid amount when that ingredient's amount is
  absent or below 0.1, and the unknown ingredient, with its identifier, otherwise. A
  payload that breaks no rule is returned as it is. An amount is invalid exactly when it
  is absent or has fewer than ten hundredths.
\<close>

theorem validate_order:
  "validate st data =
     (if data_tags data = None \<or> data_tags data = Some []
      then Inl (ValidationError AtLeastOneTag)
      else if data_ingredients_data data = None \<or> data_ingredients_data data = Some []
      then Inl (ValidationError AtLeastOneIngredient)
      else if \<not> distinct (map inp_ingredient (the (data_ingredients_data data)))
      then Inl (ValidationError DuplicateIngredients)
      else
        (case first_offender st (the (data_ingredients_data data)) of
           None \<Rightarrow> Inr data
         | Some x \<Rightarrow>
             if invalid_amount (inp_amount x) then Inl (ValidationError AmountAtLeast)
             else Inl (ValidationError (IngredientDoesNotExist (inp_ingredient x)))))
   \<and> invalid_amount amount = (case amount of None \<Rightarrow> True | Some a \<Rightarrow> a < 10)"
  by (auto simp: validate_def Let_def for_ing_data_first_offender length_remdups_distinct
      invalid_amount_def split: option.splits)

text \<open>
  The claim as it was stated puts every amount before every existence check. It fails on
  the example database for a payload whose first ingredient, 999, is not in storage and
  has a valid amount, and whose second ingredient has the amount 0.05: both rules are
  broken, and the failure is the unknown ingredient 999, not the invalid amount.
\<close>

theorem validate_order_counterexample:
  "invalid_amount (inp_amount \<lparr>inp_ingredient = 1, inp_amount = Some 5\<rparr>)
   \<and> \<not> ingredient_exists db 999
   \<and> data_ingredients_data both_rules_payload =
       Some [\<lparr>inp_ingredient = 999, inp_amount = Some 100\<rparr>,
             \<lparr>inp_ingredient = 1, inp_amount = Some 5\<rparr>]
   \<and> validate db both_rules_payload = Inl (ValidationError (IngredientDoesNotExist 999))
   \<and> validate db both_rules_payload \<noteq> Inl (ValidationError AmountAtLeast)"
  by (simp add: validate_def both_rules_payload_def invalid_amount_def ingredient_exists_def
      db_def flour_def sugar_def egg_def Let_def)

section \<open>Update replaces the ingredients of a recipe\<close>

lemma RecipeIngredient_create_Inr:
  "RecipeIngredient_create st row = Inr st' \<Longrightarrow>
     st' = st\<lparr>RecipeIngredient_objects := RecipeIngredient_objects st @ [row]\<rparr>"
  by (auto simp: RecipeIngredient_create_def split: if_splits)

lemma for_create_Inr:
  "for_create st rid ings = Inr st' \<Longrightarrow>
     st' = st\<lparr>RecipeIngredient_objects :=
              RecipeIngredient_objects st @ map (row_of rid) ings\<rparr>"
proof (induction ings arbitrary: st)
  case Nil
  then show ?case by simp
next
  case (Cons x xs)
  from Cons.prems obtain a st1 where a: "inp_amount x = Some a"
    and c: "RecipeIngredient_create st
              \<lparr>ri_recipe = rid, ri_ingredient = inp_ingredient x, ri_amount = a\<rparr> = Inr st1"
    and r: "for_create st1 rid xs = Inr st'"
    by (auto split: option.splits sum.splits)
  from RecipeIngredient_create_Inr[OF c] Cons.IH[OF r] a
  show ?case by (simp add: row_of_def)
qed

lemma for_create_succeeds:
  "recipe_exists st rid \<Longrightarrow>
   list_all (\<lambda>x. inp_amount x \<noteq> None \<and> ingredient_exists st (inp_ingredient x)) ings \<Longrightarrow>
   distinct (map inp_ingredient ings) \<Longrightarrow>
   list_all (\<lambda>x. filter (\<lambda>y. ri_recipe y = rid \<and> ri_ingredient y = inp_ingredient x)
                 (RecipeIngredient_objects st) = []) ings \<Longrightarrow>
   \<exists>st'. for_create st rid ings = Inr st'"
proof (induction ings arbitrary: st)
  case Nil
  then show ?case by simp
next
  case (Cons x xs)
  from Cons.prems(2) obtain a where a: "inp_amount x = Some a" by auto
  let ?row = "\<lparr>ri_recipe = rid, ri_ingredient = inp_ingredient x, ri_amount = a\<rparr>"
  let ?st1 = "st\<lparr>RecipeIngredient_objects := RecipeIngredient_objects st @ [?row]\<rparr>"
  have c: "RecipeIngredient_create st ?row = Inr ?st1"
    using Cons.prems by (simp add: RecipeIngredient_create_def recipe_exists_def)
  have 1: "recipe_exists ?st1 rid"
    using Cons.prems(1) by (simp add: recipe_exists_def)
  have 2: "list_all (\<lambda>x. inp_amount x \<noteq> None \<and> ingredient_exists ?st1 (inp_ingredient x)) xs"
    using Cons.prems(2) by (simp add: ingredient_exists_def)
  have 3: "distinct (map inp_ingredient xs)"
    using Cons.prems(3) by simp
  have 4: "list_all (\<lambda>z. filter (\<lambda>y. ri_recipe y = rid \<and> ri_ingredient y = inp_ingredient z)
                 (RecipeIngredient_objects ?st1) = []) xs"
    using Cons.prems(3,4) by (auto simp: list_all_iff)
  from Cons.IH[OF 1 2 3 4] obtain st' where "for_create ?st1 rid xs = Inr st'" by blast
  with a c show ?case by simp
qed

lemma recipe_exists_save: "recipe_exists (recipe_save st inst) (rec_id inst)"
  by (auto simp: recipe_exists_def recipe_save_def filter_empty_conv)

lemma validate_Inr:
  assumes "validate st data = Inr data'" "data_ingredients_data data = Some ings"
  shows "distinct (map inp_ingredient ings)"
    and "list_all (\<lambda>x. inp_amount x \<noteq> None \<and> ingredient_exists st (inp_ingredient x)) ings"
proof -
  from assms have d: "distinct (map inp_ingredient ings)"
    and f: "first_offender st ings = None"
    by (auto simp: validate_def Let_def for_ing_data_first_offender length_remdups_distinct
        split: option.splits if_splits sum.splits)
  show "distinct (map inp_ingredient ings)" by (rule d)
  from f show "list_all (\<lambda>x. inp_amount x \<noteq> None \<and> ingredient_exists st (inp_ingredient x)) ings"
    by (auto simp: first_offender_def find_None_iff list_all_iff invalid_amount_def
        split: option.splits)
qed

lemma update_unfold:
  "update st inst data =
     (let inst' = inst\<lparr>
            rec_title := (case data_title data of None \<Rightarrow> rec_title inst | Some v \<Rightarrow> v),
            rec_description := (case data_description data of
                            None \<Rightarrow> rec_description inst | Some v \<Rightarrow> v),
            rec_steps := (case data_steps data of None \<Rightarrow> rec_steps inst | Some v \<Rightarrow> v),
            rec_time_minutes := (case data_time_minutes data of
                            None \<Rightarrow> rec_time_minutes inst | Some v \<Rightarrow> v)\<rparr>;
          st2 = (case data_tags data of
                   None \<Rightarrow> recipe_save st inst'
                 | Some ts \<Rightarrow> tags_set (recipe_save st inst') (rec_id inst) ts)
      in case data_ingredients_data data of
           None \<Rightarrow> Inr (inst', st2)
         | Some ings \<Rightarrow>
             (case for_create (recipe_ingredients_delete st2 (rec_id inst)) (rec_id inst) ings of
                Inl e \<Rightarrow> Inl e
              | Inr st3 \<Rightarrow> Inr (inst', st3)))"
  by (simp add: update_def Let_def split: option.splits)

lemma tables_after_save_tags:
  "RecipeIngredient_objects (recipe_save st i) = RecipeIngredient_objects st"
  "RecipeIngredient_objects (tags_set st rid ts) = RecipeIngredient_objects st"
  "Ingredient_objects (recipe_save st i) = Ingredient_objects st"
  "Ingredient_objects (tags_set st rid ts) = Ingredient_objects st"
  "Ingredient_objects (recipe_ingredients_delete st rid) = Ingredient_objects st"
  "Recipe_objects (tags_set st rid ts) = Recipe_objects st"
  "Recipe_objects (recipe_ingredients_delete st rid) = Recipe_objects st"
  "Recipe_tags (recipe_save st i) = Recipe_tags st"
  "Recipe_tags (recipe_ingredients_delete st rid) = Recipe_tags st"
  by (simp_all add: recipe_save_def tags_set_def recipe_ingredients_delete_def)

lemma update_rows:
  assumes "data_ingredients_data data = Some ings" "update st inst data = Inr (inst', st')"
  shows "RecipeIngredient_objects st' =
           filter (\<lambda>ri. ri_recipe ri \<noteq> rec_id inst) (RecipeIngredient_objects st)
           @ map (row_of (rec_id inst)) ings"
proof -
  from assms obtain st2 where
    fc: "for_create (recipe_ingredients_delete st2 (rec_id inst)) (rec_id inst) ings = Inr st'"
    and rows: "RecipeIngredient_objects st2 = RecipeIngredient_objects st"
    by (auto simp: update_unfold Let_def tables_after_save_tags split: option.splits sum.splits)
  from for_create_Inr[OF fc] rows show ?thesis
    by (simp add: recipe_ingredients_delete_def)
qed

lemma update_succeeds:
  assumes "data_ingredients_data data = Some ings" "validate st data = Inr data"
  shows "\<exists>inst' st'. update st inst data = Inr (inst', st')"
proof -
  note v = validate_Inr[OF assms(2) assms(1)]
  define inst1 where "inst1 = inst\<lparr>
            rec_title := (case data_title data of None \<Rightarrow> rec_title inst | Some v \<Rightarrow> v),
            rec_description := (case data_description data of
                            None \<Rightarrow> rec_description inst | Some v \<Rightarrow> v),
            rec_steps := (case data_steps data of None \<Rightarrow> rec_steps inst | Some v \<Rightarrow> v),
            rec_time_minutes := (case data_time_minutes data of
                            None \<Rightarrow> rec_time_minutes inst | Some v \<Rightarrow> v)\<rparr>"
  define st2 where "st2 = (case data_tags data of
                   None \<Rightarrow> recipe_save st inst1
                 | Some ts \<Rightarrow> tags_set (recipe_save st inst1) (rec_id inst) ts)"
  define st3 where "st3 = recipe_ingredients_delete st2 (rec_id inst)"
  have id1: "rec_id inst1 = rec_id inst" by (simp add: inst1_def)
  have "recipe_exists (recipe_save st inst1) (rec_id inst)"
    using recipe_exists_save[of st inst1] by (simp add: id1)
  then have 1: "recipe_exists st3 (rec_id inst)"
    by (simp add: st3_def st2_def recipe_exists_def tables_after_save_tags split: option.splits)
  have ing: "Ingredient_objects st3 = Ingredient_objects st"
    by (simp add: st3_def st2_def tables_after_save_tags split: option.splits)
  have 2: "list_all (\<lambda>x. inp_amount x \<noteq> None \<and> ingredient_exists st3 (inp_ingredient x)) ings"
    using v(2) by (simp add: ingredient_exists_def ing)
  have 4: "list_all (\<lambda>x. filter (\<lambda>y. ri_recipe y = rec_id inst \<and> ri_ingredient y = inp_ingredient x)
                 (RecipeIngredient_objects st3) = []) ings"
    by (auto simp: st3_def recipe_ingredients_delete_def list_all_iff filter_empty_conv)
  from for_create_succeeds[OF 1 2 v(1) 4] obtain st' where
    "for_create st3 (rec_id inst) ings = Inr st'" by blast
  then have "update st inst data = Inr (inst1, st')"
    using assms(1)
    by (simp add: update_unfold Let_def inst1_def[symmetric] st2_def[symmetric] st3_def[symmetric])
  then show ?thesis by blast
qed

text \<open>
  C2. For a payload that supplies an ingredient list, an update that returns leaves as
  the RecipeIngredient rows of the recipe exactly one row per entry of the list, in its
  order and with its amounts, so none of the former rows of the recipe is left unless
  the list has it again; the rows of the other recipes are as before. A payload that
  \<open>validate\<close> accepts makes the update return: no insert is refused.
\<close>

theorem update_replaces_ingredients:
  assumes "data_ingredients_data data = Some ings"
  shows "(update st inst data = Inr (inst', st') \<longrightarrow>
            recipe_ingredients_all st' (rec_id inst) = map (row_of (rec_id inst)) ings
            \<and> (\<forall>rid. rid \<noteq> rec_id inst \<longrightarrow>
                  recipe_ingredients_all st' rid = recipe_ingredients_all st rid))
         \<and> (validate st data = Inr data \<longrightarrow>
              (\<exists>inst' st'. update st inst data = Inr (inst', st')))"
proof (intro conjI impI allI)
  assume u: "update st inst data = Inr (inst', st')"
  note rows = update_rows[OF assms u]
  show "recipe_ingredients_all st' (rec_id inst) = map (row_of (rec_id inst)) ings"
    by (simp add: recipe_ingredients_all_def rows row_of_def filter_map o_def)
  fix rid assume "rid \<noteq> rec_id inst"
  then show "recipe_ingredients_all st' rid = recipe_ingredients_all st rid"
    by (auto simp: recipe_ingredients_all_def rows row_of_def filter_map o_def
        intro: filter_cong)
next
  assume "validate st data = Inr data"
  with assms show "\<exists>inst' st'. update st inst data = Inr (inst', st')"
    by (rule update_succeeds)
qed

theorem update_replaces_ingredients_witness:
  "data_ingredients_data egg_payload = Some [\<lparr>inp_ingredient = 3, inp_amount = Some 300\<rparr>]
   \<and> validate db egg_payload = Inr egg_payload
   \<and> (\<exists>inst' st'. update db R1 egg_payload = Inr (inst', st')
         \<and> recipe_ingredients_all st' 1 = [\<lparr>ri_recipe = 1, ri_ingredient = 3, ri_amount = 300\<rparr>]
         \<and> recipe_ingredients_all st' 2 = recipe_ingredients_all db 2)"
proof -
  have d: "data_ingredients_data egg_payload = Some [\<lparr>inp_ingredient = 3, inp_amount = Some 300\<rparr>]"
    by (simp add: egg_payload_def)
  have v: "validate db egg_payload = Inr egg_payload"
    by (simp add: validate_def egg_payload_def invalid_amount_def ingredient_exists_def
        db_def flour_def sugar_def egg_def Let_def)
  from update_replaces_ingredients [OF d, of db R1] v
  obtain i s where u: "update db R1 egg_payload = Inr (i, s)" by blast
  from update_replaces_ingredients [OF d, of db R1 i s] u
  have "recipe_ingredients_all s 1 = [\<lparr>ri_recipe = 1, ri_ingredient = 3, ri_amount = 300\<rparr>]"
    and "recipe_ingredients_all s 2 = recipe_ingredients_all db 2"
    by (simp_all add: row_of_def R1_def)
  with d v u show ?thesis by blast
qed

section \<open>Partial update\<close>

text \<open>\<open>update\<close> by itself leaves what the payload does not carry as it is.\<close>

lemma update_partial_semantics:
  assumes "update st inst data = Inr (inst', st')"
  shows "data_title data = None \<Longrightarrow> rec_title inst' = rec_title inst"
    and "data_description data = None \<Longrightarrow> rec_description inst' = rec_description inst"
    and "data_steps data = None \<Longrightarrow> rec_steps inst' = rec_steps inst"
    and "data_time_minutes data = None \<Longrightarrow> rec_time_minutes inst' = rec_time_minutes inst"
    and "data_tags data = None \<Longrightarrow> tags_all st' rid = tags_all st rid"
    and "data_ingredients_data data = None \<Longrightarrow>
           recipe_ingredients_all st' rid = recipe_ingredients_all st rid"
  using assms
  by (auto simp: update_unfold Let_def tables_after_save_tags tags_all_def
      recipe_ingredients_all_def split: option.splits sum.splits dest!: for_create_Inr)

lemma update_without_ingredients_returns:
  "data_ingredients_data data = None \<Longrightarrow> \<exists>inst' st'. update st inst data = Inr (inst', st')"
  by (simp add: update_unfold Let_def)

text \<open>
  C3. A payload without tags never reaches \<open>update\<close>: \<open>validate\<close> refuses it with
  "At least one tag is required", whatever else it carries, so that no PATCH request
  without tags, and none without an ingredient list, is answered with success. On the
  example database the
  author of recipe 1 sends a PATCH with a new title and nothing else; the request fails
  with this error, although \<open>update\<close>, called on the same payload, returns the recipe
  with the new title and changes nothing else.
\<close>

theorem partial_update_requires_tags:
  "validate st (data\<lparr>data_tags := None\<rparr>) = Inl (ValidationError AtLeastOneTag)
   \<and> partial_update fw st req pk (data\<lparr>data_tags := None\<rparr>) \<noteq> Inr x
   \<and> partial_update fw st req pk (data\<lparr>data_ingredients_data := None\<rparr>) \<noteq> Inr x
   \<and> partial_update drf db (user7 ''PATCH'') 1 title_only = Inl (ValidationError AtLeastOneTag)
   \<and> update db R1 title_only =
       Inr (R1\<lparr>rec_title := ''Tart''\<rparr>, db\<lparr>Recipe_objects := [R1\<lparr>rec_title := ''Tart''\<rparr>, R2]\<rparr>)"
proof (intro conjI)
  show v: "validate st (data\<lparr>data_tags := None\<rparr>) = Inl (ValidationError AtLeastOneTag)"
    by (simp add: validate_def)
  show "partial_update fw st req pk (data\<lparr>data_tags := None\<rparr>) \<noteq> Inr x"
    by (simp add: partial_update_def v split: sum.splits)
  have "validate st (data\<lparr>data_ingredients_data := None\<rparr>) \<noteq> Inr y" for y
    by (simp add: validate_def Let_def)
  then show "partial_update fw st req pk (data\<lparr>data_ingredients_data := None\<rparr>) \<noteq> Inr x"
    by (auto simp: partial_update_def split: sum.splits)
  have obj: "get_object drf db (user7 ''PATCH'') ''partial_update'' 1 = Inr R1"
    by (simp add: get_object_def get_queryset_def check_object_permissions_def
        get_permissions_def user7_def drf_def db_def R1_def R2_def is_authenticated_def)
  show "partial_update drf db (user7 ''PATCH'') 1 title_only = Inl (ValidationError AtLeastOneTag)"
    by (simp add: partial_update_def check_permissions_def get_permissions_def obj
        validate_def title_only_def)
  show "update db R1 title_only =
       Inr (R1\<lparr>rec_title := ''Tart''\<rparr>, db\<lparr>Recipe_objects := [R1\<lparr>rec_title := ''Tart''\<rparr>, R2]\<rparr>)"
    by (simp add: update_def title_only_def recipe_save_def db_def R1_def R2_def Let_def)
qed

section \<open>Favorites\<close>

lemma allow_any_actions:
  "get_permissions ''favorite'' = [AllowAny]"
  "get_permissions ''unfavorite'' = [AllowAny]"
  "get_permissions ''shopping_list'' = [AllowAny]"
  by (simp_all add: get_permissions_def)

lemma get_object_action:
  "get_object fw st req ''unfavorite'' pk = get_object fw st req ''favorite'' pk"
  by (simp add: get_object_def check_object_permissions_def allow_any_actions
      split: sum.splits list.splits)

text \<open>
  C6. For an authenticated user and a recipe that the view finds: favoriting a recipe
  that the user has among the favorites is answered with the error response "Already in
  favorites" (status 400) and leaves the store, and so the Favorite table, as it is;
  favoriting a recipe that is not among them is answered with 201 and adds exactly one
  Favorite row, of this user and this recipe; un-favoriting a recipe that is not among
  them raises the 404 error.
\<close>

theorem favorite_toggle:
  assumes "user req = Some u" "get_object fw st req ''favorite'' pk = Inr r"
  shows "(favorite_filter st u (rec_id r) \<noteq> [] \<longrightarrow>
            favorite fw st req pk = Inr (Response (Detail ''Already in favorites'') 400, st))
       \<and> (favorite_filter st u (rec_id r) = [] \<longrightarrow>
            favorite fw st req pk =
              Inr (Response NoBody 201,
                   st\<lparr>Favorite_objects :=
                        Favorite_objects st @ [\<lparr>fav_user = u, fav_recipe = rec_id r\<rparr>]\<rparr>))
       \<and> (favorite_filter st u (rec_id r) = [] \<longrightarrow> unfavorite fw st req pk = Inl Http404)"
  using assms
  by (simp add: favorite_def unfavorite_def get_object_action check_permissions_def
      get_permissions_def Favorite_create_def)

theorem favorite_toggle_witness:
  "user (user7 ''POST'') = Some 7
   \<and> get_object drf db (user7 ''POST'') ''favorite'' 2 = Inr R2
   \<and> favorite_filter db 7 (rec_id R2) \<noteq> []
   \<and> favorite drf db (user7 ''POST'') 2 = Inr (Response (Detail ''Already in favorites'') 400, db)
   \<and> get_object drf db (user7 ''POST'') ''favorite'' 1 = Inr R1
   \<and> favorite_filter db 7 (rec_id R1) = []
   \<and> favorite drf db (user7 ''POST'') 1 =
        Inr (Response NoBody 201,
             db\<lparr>Favorite_objects :=
                  Favorite_objects db @ [\<lparr>fav_user = 7, fav_recipe = rec_id R1\<rparr>]\<rparr>)
   \<and> get_object drf db (user7 ''DELETE'') ''favorite'' 1 = Inr R1
   \<and> unfavorite drf db (user7 ''DELETE'') 1 = Inl Http404"
proof -
  have u: "user (user7 ''POST'') = Some 7" and u': "user (user7 ''DELETE'') = Some 7"
    by (simp_all add: user7_def)
  have o2: "get_object drf db (user7 ''POST'') ''favorite'' 2 = Inr R2"
    and o1: "get_object drf db (user7 ''POST'') ''favorite'' 1 = Inr R1"
    and o1': "get_object drf db (user7 ''DELETE'') ''favorite'' 1 = Inr R1"
    by (simp_all add: get_object_def get_queryset_def check_object_permissions_def
        get_permissions_def user7_def drf_def db_def R1_def R2_def)
  have f2: "favorite_filter db 7 (rec_id R2) \<noteq> []" and f1: "favorite_filter db 7 (rec_id R1) = []"
    by (simp_all add: favorite_filter_def db_def R1_def R2_def)
  from favorite_toggle [OF u o2] favorite_toggle [OF u o1] favorite_toggle [OF u' o1']
    u o1 o1' o2 f1 f2
  show ?thesis by simp
qed

section \<open>Which recipes the shopping list runs over\<close>

lemma set_filter_favorites_user:
  "set (filter_favorites_user st u qs) = {r \<in> set qs. favorite_filter st u (rec_id r) \<noteq> []}"
  by (auto simp: filter_favorites_user_def favorite_filter_def filter_empty_conv)

lemma distinct_filter_le_one:
  "distinct xs \<Longrightarrow> (\<And>x y. x \<in> set xs \<Longrightarrow> y \<in> set xs \<Longrightarrow> P x \<Longrightarrow> P y \<Longrightarrow> x = y) \<Longrightarrow>
     filter P xs = [] \<or> (\<exists>x. filter P xs = [x])"
proof (induction xs)
  case Nil
  then show ?case by simp
next
  case (Cons a xs)
  show ?case
  proof (cases "P a")
    case True
    have "filter P xs = []"
    proof (rule ccontr)
      assume "filter P xs \<noteq> []"
      then obtain y where y: "y \<in> set xs" "P y" by (auto simp: filter_empty_conv)
      with Cons.prems(2)[of a y] True have "a = y" by simp
      with y Cons.prems(1) show False by simp
    qed
    with True show ?thesis by simp
  next
    case False
    with Cons show ?thesis by simp
  qed
qed

lemma filter_favorites_user_distinct:
  assumes "distinct (Favorite_objects st)"
  shows "filter_favorites_user st u qs = filter (\<lambda>r. favorite_filter st u (rec_id r) \<noteq> []) qs"
proof -
  have one: "map (\<lambda>f. r) (filter (\<lambda>f. fav_recipe f = rec_id r \<and> fav_user f = u) (Favorite_objects st))
        = (if favorite_filter st u (rec_id r) \<noteq> [] then [r] else [])" for r
  proof -
    let ?P = "\<lambda>f. fav_recipe f = rec_id r \<and> fav_user f = u"
    have "filter ?P (Favorite_objects st) = [] \<or> (\<exists>x. filter ?P (Favorite_objects st) = [x])"
      by (rule distinct_filter_le_one[OF assms]) simp
    moreover have "favorite_filter st u (rec_id r) = filter ?P (Favorite_objects st)"
      by (auto simp: favorite_filter_def intro: filter_cong)
    ultimately show ?thesis by auto
  qed
  show ?thesis
    unfolding filter_favorites_user_def one
    by (induction qs) simp_all
qed

text \<open>
  C7. For an authenticated user and a request whose \<open>recipe_ids\<close> is absent or empty,
  the result is the aggregation over the join of the recipes with the user's Favorite
  rows; the recipes of this join are exactly the recipes that the user has among the
  favorites, each of them once when the Favorite table has no row twice
  (\<open>unique_together\<close>). Every shopping-list request of the anonymous user fails: the
  action's permissions let it pass, and the serializer raises "User must be
  authenticated".
\<close>

theorem shopping_list_default_favorites:
  "(user req = Some u \<longrightarrow> recipe_ids = None \<or> recipe_ids = Some [] \<longrightarrow>
      ShoppingListSerializer_create st (Some req) recipe_ids =
        for_recipe st Map.empty (filter_favorites_user st u (Recipe_objects st))
      \<and> shopping_list st req recipe_ids =
          (case for_recipe st Map.empty (filter_favorites_user st u (Recipe_objects st)) of
             Inl e \<Rightarrow> Inl e
           | Inr ingredients \<Rightarrow> Inr (Response (Ingredients ingredients) 200)))
   \<and> set (filter_favorites_user st u (Recipe_objects st)) =
       {r \<in> set (Recipe_objects st). favorite_filter st u (rec_id r) \<noteq> []}
   \<and> (distinct (Favorite_objects st) \<longrightarrow>
        filter_favorites_user st u (Recipe_objects st) =
          filter (\<lambda>r. favorite_filter st u (rec_id r) \<noteq> []) (Recipe_objects st))
   \<and> (user req = None \<longrightarrow>
        shopping_list st req recipe_ids = Inl (ValidationError UserMustBeAuthenticated)
        \<and> ShoppingListSerializer_create st (Some req) recipe_ids =
            Inl (ValidationError UserMustBeAuthenticated))"
  by (auto simp: ShoppingListSerializer_create_def shopping_list_def check_permissions_def
      allow_any_actions set_filter_favorites_user filter_favorites_user_distinct)

theorem shopping_list_default_favorites_witness:
  "user (user7 ''POST'') = Some 7
   \<and> distinct (Favorite_objects db)
   \<and> filter (\<lambda>r. favorite_filter db 7 (rec_id r) \<noteq> []) (Recipe_objects db) = [R2]
   \<and> ShoppingListSerializer_create db (Some (user7 ''POST'')) None =
       for_recipe db Map.empty [R2]
   \<and> ShoppingListSerializer_create db (Some (user7 ''POST'')) (Some []) =
       for_recipe db Map.empty [R2]
   \<and> user (anonymous ''POST'') = None
   \<and> shopping_list db (anonymous ''POST'') (Some [1]) =
       Inl (ValidationError UserMustBeAuthenticated)"
proof -
  have u: "user (user7 ''POST'') = Some 7" and a: "user (anonymous ''POST'') = None"
    by (simp_all add: user7_def anonymous_def)
  have d: "distinct (Favorite_objects db)" by (simp add: db_def)
  have f: "filter (\<lambda>r. favorite_filter db 7 (rec_id r) \<noteq> []) (Recipe_objects db) = [R2]"
    by (simp add: favorite_filter_def db_def R1_def R2_def)
  from shopping_list_default_favorites [of "user7 ''POST''" 7 None db]
    shopping_list_default_favorites [of "user7 ''POST''" 7 "Some []" db]
    shopping_list_default_favorites [of "anonymous ''POST''" 7 "Some [1]" db]
    u a d f
  show ?thesis by simp
qed

text \<open>
  C8. Repeating an identifier in \<open>recipe_ids\<close> changes nothing: the serializer and the
  view return for a list what they return for the list without its repetitions, because
  the recipes selected are the same, every stored recipe whose identifier is in the list
  being selected as often as it is stored.
\<close>

theorem shopping_list_duplicates:
  "ShoppingListSerializer_create st request (Some recipe_ids) =
     ShoppingListSerializer_create st request (Some (remdups recipe_ids))
   \<and> shopping_list st req (Some recipe_ids) = shopping_list st req (Some (remdups recipe_ids))
   \<and> filter_id_in st recipe_ids = filter_id_in st (remdups recipe_ids)
   \<and> count_list (filter_id_in st recipe_ids) r =
       (if rec_id r \<in> set recipe_ids then count_list (Recipe_objects st) r else 0)"
proof -
  have f: "filter_id_in st recipe_ids = filter_id_in st (remdups recipe_ids)"
    by (simp add: filter_id_in_def)
  have c: "ShoppingListSerializer_create st request (Some recipe_ids) =
     ShoppingListSerializer_create st request (Some (remdups recipe_ids))" for request
    by (simp add: ShoppingListSerializer_create_def f split: option.splits)
  have n: "count_list (filter P xs) r = (if P r then count_list xs r else 0)" for P xs
    by (induction xs) auto
  have s: "shopping_list st req (Some recipe_ids) = shopping_list st req (Some (remdups recipe_ids))"
    unfolding shopping_list_def c[of "Some req"] ..
  have k: "count_list (filter_id_in st recipe_ids) r =
       (if rec_id r \<in> set recipe_ids then count_list (Recipe_objects st) r else 0)"
    by (simp add: n filter_id_in_def)
  from f c s k show ?thesis by blast
qed

lemma filter_id_in_existing:
  "filter_id_in st (filter (recipe_exists st) recipe_ids) = filter_id_in st recipe_ids"
  by (auto simp: filter_id_in_def recipe_exists_def filter_empty_conv intro: filter_cong)

lemma create_ignores_unknown_ids:
  assumes "user req = Some u" "recipe_ids \<noteq> []"
  shows "ShoppingListSerializer_create st (Some req) (Some recipe_ids) =
           for_recipe st Map.empty
             (filter (\<lambda>r. rec_id r \<in> set (filter (recipe_exists st) recipe_ids))
                (Recipe_objects st))"
    and "filter (recipe_exists st) recipe_ids \<noteq> [] \<Longrightarrow>
           ShoppingListSerializer_create st (Some req) (Some recipe_ids) =
             ShoppingListSerializer_create st (Some req)
               (Some (filter (recipe_exists st) recipe_ids))"
    and "filter (recipe_exists st) recipe_ids = [] \<Longrightarrow>
           ShoppingListSerializer_create st (Some req) (Some recipe_ids) = Inr Map.empty"
proof -
  have c: "ShoppingListSerializer_create st (Some req) (Some ids) =
             for_recipe st Map.empty (filter_id_in st ids)" if "ids \<noteq> []" for ids
    using assms(1) that by (simp add: ShoppingListSerializer_create_def)
  show "ShoppingListSerializer_create st (Some req) (Some recipe_ids) =
           for_recipe st Map.empty
             (filter (\<lambda>r. rec_id r \<in> set (filter (recipe_exists st) recipe_ids))
                (Recipe_objects st))"
    using filter_id_in_existing[of st recipe_ids]
    by (simp add: c[OF assms(2)] filter_id_in_def)
  show "ShoppingListSerializer_create st (Some req) (Some recipe_ids) =
             ShoppingListSerializer_create st (Some req)
               (Some (filter (recipe_exists st) recipe_ids))"
    if "filter (recipe_exists st) recipe_ids \<noteq> []"
    by (simp only: c[OF assms(2)] c[OF that] filter_id_in_existing)
  show "ShoppingListSerializer_create st (Some req) (Some recipe_ids) = Inr Map.empty"
    if "filter (recipe_exists st) recipe_ids = []"
  proof -
    have "filter_id_in st recipe_ids = filter_id_in st []"
      using filter_id_in_existing[of st recipe_ids] that by simp
    then show ?thesis by (simp add: c[OF assms(2)] filter_id_in_def)
  qed
qed

text \<open>Of the shopping lists only the empty one is rendered: a request that is answered
  is answered with the empty mapping.\<close>

lemma post_shopping_list_answers_empty:
  "post_shopping_list st req recipe_ids = Inr resp \<Longrightarrow>
     resp = Response (Ingredients Map.empty) 200"
  by (auto simp: post_shopping_list_def shopping_list_def render_def
      split: sum.splits if_splits)

lemma unknown_ids_example:
  "ShoppingListSerializer_create db (Some (user7 ''POST'')) (Some [1, 99]) =
     Inr [(''flour'', ''g'') \<mapsto> 20000, (''sugar'', ''g'') \<mapsto> 5000]"
  "ShoppingListSerializer_create db (Some (user7 ''POST'')) (Some [1]) =
     Inr [(''flour'', ''g'') \<mapsto> 20000, (''sugar'', ''g'') \<mapsto> 5000]"
  "ShoppingListSerializer_create db (Some (user7 ''POST'')) (Some [98, 99]) = Inr Map.empty"
  by (simp_all add: ShoppingListSerializer_create_def user7_def filter_id_in_def
      recipe_ingredients_all_def ingredient_get_def add_amount_def db_def R1_def R2_def
      flour_def sugar_def egg_def)

text \<open>
  C9. The serializer ignores the identifiers of no stored recipe: for the list 1, 99 on
  the example database it returns what it returns for the list 1, flour 200 g and sugar
  50 g, and for the list 98, 99 the empty mapping. The view answers with this mapping
  and status 200, and the request then fails all the same: the mapping has tuples for
  keys and the rendering of the response raises \<open>TypeError\<close>. Only the request whose
  identifiers all are unknown, with its empty mapping, is answered.
\<close>

theorem shopping_list_unknown_ids_not_rendered:
  "ShoppingListSerializer_create db (Some (user7 ''POST'')) (Some [1, 99]) =
     Inr [(''flour'', ''g'') \<mapsto> 20000, (''sugar'', ''g'') \<mapsto> 5000]
   \<and> ShoppingListSerializer_create db (Some (user7 ''POST'')) (Some [1, 99]) =
       ShoppingListSerializer_create db (Some (user7 ''POST'')) (Some [1])
   \<and> shopping_list db (user7 ''POST'') (Some [1, 99]) =
       Inr (Response (Ingredients [(''flour'', ''g'') \<mapsto> 20000, (''sugar'', ''g'') \<mapsto> 5000]) 200)
   \<and> post_shopping_list db (user7 ''POST'') (Some [1, 99]) = Inl TypeError
   \<and> post_shopping_list db (user7 ''POST'') (Some [98, 99]) =
       Inr (Response (Ingredients Map.empty) 200)"
proof -
  have v: "shopping_list db (user7 ''POST'') ids =
     (case ShoppingListSerializer_create db (Some (user7 ''POST'')) ids of
        Inl e \<Rightarrow> Inl e
      | Inr ingredients \<Rightarrow> Inr (Response (Ingredients ingredients) 200))" for ids
    by (simp add: shopping_list_def check_permissions_def allow_any_actions)
  have ne: "[(''flour'', ''g'') \<mapsto> 20000, (''sugar'', ''g'') \<mapsto> (5000::int)] \<noteq> Map.empty"
    by simp
  show ?thesis
    using ne by (simp add: post_shopping_list_def render_def v unknown_ids_example)
qed

section \<open>The favorited filter of the recipe list\<close>

text \<open>
  C10. For an authenticated user, \<open>get_queryset\<close> with any value of \<open>favorited\<close> that
  is not empty is \<open>get_queryset\<close> without the parameter, joined with the user's
  favorites: the value itself does not occur in the result, and every recipe listed is
  among the user's favorites. For the anonymous user the parameter, with any value or
  absent, changes nothing.
\<close>

theorem favorited_filter_ignores_value:
  "(user req = Some u \<longrightarrow> v \<noteq> [] \<longrightarrow>
      get_queryset fw st (with_favorited req (Some v)) =
        (case get_queryset fw st (with_favorited req None) of
           Inl e \<Rightarrow> Inl e
         | Inr queryset \<Rightarrow> Inr (filter_favorites_user st u queryset)))
   \<and> (user req = Some u \<longrightarrow> v \<noteq> [] \<longrightarrow>
        get_queryset fw st (with_favorited req (Some v)) = Inr rs \<longrightarrow>
        list_all (\<lambda>r. favorite_filter st u (rec_id r) \<noteq> []) rs)
   \<and> (user req = None \<longrightarrow>
        get_queryset fw st (with_favorited req w) = get_queryset fw st (with_favorited req None))"
proof -
  have a: "user req = Some u \<Longrightarrow> v \<noteq> [] \<Longrightarrow>
      get_queryset fw st (with_favorited req (Some v)) =
        (case get_queryset fw st (with_favorited req None) of
           Inl e \<Rightarrow> Inl e
         | Inr queryset \<Rightarrow> Inr (filter_favorites_user st u queryset))"
    by (simp add: get_queryset_def with_favorited_def is_authenticated_def Let_def
        split: option.splits)
  have b: "user req = Some u \<Longrightarrow> v \<noteq> [] \<Longrightarrow>
        get_queryset fw st (with_favorited req (Some v)) = Inr rs \<Longrightarrow>
        list_all (\<lambda>r. favorite_filter st u (rec_id r) \<noteq> []) rs"
    using set_filter_favorites_user[of st u]
    by (auto simp: a list_all_iff split: sum.splits)
  have c: "user req = None \<Longrightarrow>
        get_queryset fw st (with_favorited req w) = get_queryset fw st (with_favorited req None)"
    by (simp add: get_queryset_def with_favorited_def is_authenticated_def Let_def
        split: option.splits)
  from a b c show ?thesis by blast
qed

theorem favorited_filter_ignores_value_witness:
  "user (user7 ''GET'') = Some 7
   \<and> ''false'' \<noteq> []
   \<and> get_queryset drf db (with_favorited (user7 ''GET'') None) = Inr [R1, R2]
   \<and> get_queryset drf db (with_favorited (user7 ''GET'') (Some ''false'')) = Inr [R2]
   \<and> get_queryset drf db (with_favorited (user7 ''GET'') (Some ''0'')) = Inr [R2]
   \<and> list_all (\<lambda>r. favorite_filter db 7 (rec_id r) \<noteq> []) [R2]
   \<and> user (anonymous ''GET'') = None
   \<and> get_queryset drf db (with_favorited (anonymous ''GET'') (Some ''true'')) =
       get_queryset drf db (with_favorited (anonymous ''GET'') None)"
proof -
  have u: "user (user7 ''GET'') = Some 7" and a: "user (anonymous ''GET'') = None"
    by (simp_all add: user7_def anonymous_def)
  have q: "get_queryset drf db (with_favorited (user7 ''GET'') None) = Inr [R1, R2]"
    by (simp add: get_queryset_def with_favorited_def user7_def db_def)
  have j: "filter_favorites_user db 7 [R1, R2] = [R2]"
    by (simp add: filter_favorites_user_def db_def R1_def R2_def)
  from favorited_filter_ignores_value [of "user7 ''GET''" 7 "''false''" drf db "[R2]"]
    favorited_filter_ignores_value [of "user7 ''GET''" 7 "''0''" drf db "[R2]"]
    favorited_filter_ignores_value [of "anonymous ''GET''" 7 "''true''" drf db "[R2]" "Some ''true''"]
    u a q j
  show ?thesis by simp
qed

end
